theory Spec2Isabelle
  imports Complex_Main
begin

section \<open>The traced chatbot of demo-langfuse-tracing.py\<close>

text \<open>
  The script is one FastAPI handler, \<open>chat\<close>, with two helpers, \<open>call_openai\<close> and
  \<open>process_response\<close>, and a start-up block. Everything else it touches is a library:
  the OpenAI client, the Langfuse client, \<open>uuid.uuid4\<close>, \<open>datetime.now\<close>, \<open>os.getenv\<close>.
  Each library call is a point where the outside world gives the handler a value, so the
  model takes that value from a record \<open>world\<close> (one per request) and writes every call the
  handler makes on a client into an explicit state, in the order of the source.
  The handler's own \<open>print\<close> lines only write to the console and are left out; those
  of the start-up block are kept, since what it prints is part of what it does.
\<close>

subsection \<open>Values handed to the libraries\<close>

text \<open>
  The keyword arguments of the Langfuse calls are Python dicts, lists, strings and numbers.
  A dict literal is an association list in the order the source writes its keys.
  The float literal \<open>0.7\<close> is carried as the decimal it denotes; the script does no arithmetic
  on it. In a message a \<open>char\<close> stands for one character of the Python \<open>str\<close>, so that
  \<open>len\<close> is \<open>length\<close>.
\<close>

datatype pyval =
    PNone
  | PStr string
  | PInt int
  | PFloat real
  | PList "pyval list"
  | PDict "(string \<times> pyval) list"

type_synonym kwargs = "(string \<times> pyval) list"

text \<open>Exceptions that can leave \<open>chat\<close>; the script has no \<open>try\<close> anywhere.\<close>

datatype exn =
    APIError string
  | IndexError
  | AttributeError
  | ValidationError

subsection \<open>The inference client (lines 169 to 190)\<close>

record message =
  role :: string
  content :: string

record completion_request =
  req_model :: string
  req_messages :: "message list"
  req_temperature :: real
  req_max_tokens :: int

text \<open>
  What \<open>chat.completions.create\<close> returns, as far as the script reads it:
  \<open>response.choices[i].message.content\<close> (a string or \<open>None\<close>), \<open>response.usage\<close>
  (an object or \<open>None\<close>) and \<open>response.model\<close>.
\<close>

record completion_usage =
  prompt_tokens :: int
  completion_tokens :: int
  total_tokens :: int

record completion =
  choices :: "string option list"
  usage :: "completion_usage option"
  model :: string

subsection \<open>The outside world of one request\<close>

record world =
  uuid4 :: string
  now_isoformat :: string
  create :: "completion_request \<Rightarrow> exn + completion"
  delivery_ok :: bool

type_synonym environ = "string \<Rightarrow> string option"

text \<open>\<open>os.getenv(key, default)\<close>: the default only when the variable is unset.\<close>

definition getenv :: "environ \<Rightarrow> string \<Rightarrow> string \<Rightarrow> string" where
  "getenv env key dflt = (case env key of None \<Rightarrow> dflt | Some v \<Rightarrow> v)"

subsection \<open>The telemetry client\<close>

text \<open>
  The calls made on the Langfuse client and on the handles it returns, with their keyword
  arguments as written in the source. A trace handle is the trace's id; a span handle is
  the position of the creating call in the client's record of calls.
\<close>

datatype lf_call =
    TraceCall kwargs
  | GenerationCall string kwargs
  | SpanCall string kwargs
  | SpanEndCall nat kwargs
  | TraceUpdateCall string kwargs
  | FlushCall

record app_state =
  calls :: "lf_call list"
  delivered :: "lf_call list"
  sent :: "completion_request list"

definition lookup :: "kwargs \<Rightarrow> string \<Rightarrow> pyval option" where
  "lookup kw k = map_of kw k"

text \<open>
  Modelled from the spec: the Langfuse SDK, which is not part of the repository. Section
  4.1 says that beginning and ending traces and spans is local, in memory, and never fails
  under normal operation; each call is appended to the client's record.
\<close>

definition langfuse_trace :: "kwargs \<Rightarrow> app_state \<Rightarrow> string \<times> app_state" where
  "langfuse_trace kw st =
     ((case lookup kw ''id'' of Some (PStr i) \<Rightarrow> i | _ \<Rightarrow> []),
      st\<lparr>calls := calls st @ [TraceCall kw]\<rparr>)"

definition trace_generation :: "string \<Rightarrow> kwargs \<Rightarrow> app_state \<Rightarrow> app_state" where
  "trace_generation trace kw st = st\<lparr>calls := calls st @ [GenerationCall trace kw]\<rparr>"

definition trace_span :: "string \<Rightarrow> kwargs \<Rightarrow> app_state \<Rightarrow> nat \<times> app_state" where
  "trace_span trace kw st = (length (calls st), st\<lparr>calls := calls st @ [SpanCall trace kw]\<rparr>)"

definition span_end :: "nat \<Rightarrow> kwargs \<Rightarrow> app_state \<Rightarrow> app_state" where
  "span_end sp kw st = st\<lparr>calls := calls st @ [SpanEndCall sp kw]\<rparr>"

definition trace_update :: "string \<Rightarrow> kwargs \<Rightarrow> app_state \<Rightarrow> app_state" where
  "trace_update trace kw st = st\<lparr>calls := calls st @ [TraceUpdateCall trace kw]\<rparr>"

text \<open>
  Modelled from the spec: the sink behind \<open>langfuse.flush()\<close>. Sections 4.1 and 4.4: flush
  blocks and forces delivery of every record created before it; delivery may fail, and the
  failure stays inside the sink, so the call returns either way. \<open>ok\<close> is whether the
  delivery went through, and \<open>delivered\<close> is what the flushes have pushed through; what
  the sink delivers on its own schedule is outside the model.
\<close>

definition langfuse_flush :: "bool \<Rightarrow> app_state \<Rightarrow> app_state" where
  "langfuse_flush ok st =
     (let st' = st\<lparr>calls := calls st @ [FlushCall]\<rparr>
      in if ok then st'\<lparr>delivered := calls st\<rparr> else st')"

subsection \<open>call_openai (lines 154 to 212)\<close>

text \<open>
  The dict \<open>result\<close> of \<open>call_openai\<close>, rebuilt key by key as \<open>processed\<close>: it always
  has the keys \<open>text\<close>, \<open>tokens\<close> and \<open>model\<close>, here the fields \<open>res_text\<close>,
  \<open>res_tokens\<close> and \<open>res_model\<close>.
\<close>

record llm_result =
  res_text :: "string option"
  res_tokens :: int
  res_model :: string

definition pystr_opt :: "string option \<Rightarrow> pyval" where
  "pystr_opt s = (case s of None \<Rightarrow> PNone | Some t \<Rightarrow> PStr t)"

definition result_dict :: "llm_result \<Rightarrow> pyval" where
  "result_dict r =
     PDict [(''text'', pystr_opt (res_text r)), (''tokens'', PInt (res_tokens r)),
            (''model'', PStr (res_model r))]"

definition system_prompt :: string where
  "system_prompt = ''You are a helpful assistant that explains things simply.''"

definition inference_request :: "string \<Rightarrow> completion_request" where
  "inference_request msg =
     \<lparr>req_model = ''gpt-3.5-turbo'',
      req_messages = [\<lparr>role = ''system'', content = system_prompt\<rparr>,
                      \<lparr>role = ''user'', content = msg\<rparr>],
      req_temperature = 0.7,
      req_max_tokens = 500\<rparr>"

definition generation_kwargs :: "string \<Rightarrow> completion \<Rightarrow> completion_usage \<Rightarrow> llm_result \<Rightarrow> kwargs" where
  "generation_kwargs msg response u result =
     [(''name'', PStr ''openai_api_call''),
      (''model'', PStr (model response)),
      (''input'', PStr msg),
      (''output'', pystr_opt (res_text result)),
      (''usage'', PDict [(''promptTokens'', PInt (prompt_tokens u)),
                         (''completionTokens'', PInt (completion_tokens u)),
                         (''totalTokens'', PInt (total_tokens u))]),
      (''metadata'', PDict [(''temperature'', PFloat 0.7), (''max_tokens'', PInt 500)])]"

text \<open>
  The request is sent first; an exception of the client leaves the function at once.
  The dict literal \<open>result\<close> then reads \<open>response.choices[0]\<close> (IndexError on an empty
  list), \<open>response.usage.total_tokens\<close> (AttributeError when usage is \<open>None\<close>) and
  \<open>response.model\<close>, in that order, before the generation is recorded.
\<close>

definition call_openai :: "world \<Rightarrow> string \<Rightarrow> string \<Rightarrow> app_state \<Rightarrow> (exn + llm_result) \<times> app_state" where
  "call_openai w msg trace st =
     (let rq = inference_request msg;
          st1 = st\<lparr>sent := sent st @ [rq]\<rparr>
      in case create w rq of
           Inl e \<Rightarrow> (Inl e, st1)
         | Inr response \<Rightarrow>
             (case choices response of
                [] \<Rightarrow> (Inl IndexError, st1)
              | c # _ \<Rightarrow>
                  (case usage response of
                     None \<Rightarrow> (Inl AttributeError, st1)
                   | Some u \<Rightarrow>
                       (let result = \<lparr>res_text = c, res_tokens = total_tokens u,
                                      res_model = model response\<rparr>
                        in (Inr result,
                            trace_generation trace (generation_kwargs msg response u result) st1)))))"

subsection \<open>process_response (lines 218 to 257)\<close>

definition span_kwargs :: "llm_result \<Rightarrow> kwargs" where
  "span_kwargs llm_response =
     [(''name'', PStr ''response_processing''),
      (''input'', result_dict llm_response),
      (''metadata'', PDict [(''step'', PStr ''validation'')])]"

definition span_end_kwargs :: "llm_result \<Rightarrow> kwargs" where
  "span_end_kwargs processed =
     [(''output'', result_dict processed),
      (''metadata'', PDict [(''status'', PStr ''passed'')])]"

definition process_response :: "llm_result \<Rightarrow> string \<Rightarrow> app_state \<Rightarrow> llm_result \<times> app_state" where
  "process_response llm_response trace st =
     (let (sp, st1) = trace_span trace (span_kwargs llm_response) st;
          processed = \<lparr>res_text = res_text llm_response, res_tokens = res_tokens llm_response,
                       res_model = res_model llm_response\<rparr>;
          st2 = span_end sp (span_end_kwargs processed) st1
      in (processed, st2))"

subsection \<open>chat (lines 78 to 148)\<close>

record ChatRequest =
  message :: string
  user_id :: string

record ChatResponse =
  response :: string
  trace_id :: string
  trace_url :: string
  tokens_used :: int
  model_used :: string

text \<open>
  \<open>ChatResponse(...)\<close> is a pydantic model: the field \<open>response: str\<close> refuses \<open>None\<close>
  with a ValidationError. The other arguments already have the declared types. Its field
  \<open>model\<close> is \<open>model_used\<close> here, \<open>model\<close> being the field of the completion.
\<close>

definition new_ChatResponse :: "string option \<Rightarrow> string \<Rightarrow> string \<Rightarrow> int \<Rightarrow> string \<Rightarrow> exn + ChatResponse" where
  "new_ChatResponse r tid url tok m =
     (case r of
        None \<Rightarrow> Inl ValidationError
      | Some s \<Rightarrow> Inr \<lparr>response = s, trace_id = tid, trace_url = url,
                        tokens_used = tok, model_used = m\<rparr>)"

definition trace_kwargs :: "world \<Rightarrow> ChatRequest \<Rightarrow> kwargs" where
  "trace_kwargs w request =
     [(''id'', PStr (uuid4 w)),
      (''name'', PStr ''chat_conversation''),
      (''user_id'', PStr (user_id request)),
      (''input'', PDict [(''message'', PStr (message request))]),
      (''metadata'', PDict [(''timestamp'', PStr (now_isoformat w)),
                            (''message_length'', PInt (int (length (message request))))]),
      (''tags'', PList [PStr ''chatbot'', PStr ''gpt-3.5''])]"

definition update_kwargs :: "llm_result \<Rightarrow> kwargs" where
  "update_kwargs final_response =
     [(''output'', PDict [(''response'', pystr_opt (res_text final_response)),
                          (''tokens'', PInt (res_tokens final_response))])]"

definition chat :: "environ \<Rightarrow> world \<Rightarrow> ChatRequest \<Rightarrow> app_state \<Rightarrow> (exn + ChatResponse) \<times> app_state" where
  "chat env w request st =
     (let tid = uuid4 w;
          (trace, st1) = langfuse_trace (trace_kwargs w request) st
      in case call_openai w (message request) trace st1 of
           (Inl e, st2) \<Rightarrow> (Inl e, st2)
         | (Inr llm_response, st2) \<Rightarrow>
             (let (final_response, st3) = process_response llm_response trace st2;
                  st4 = trace_update trace (update_kwargs final_response) st3;
                  st5 = langfuse_flush (delivery_ok w) st4;
                  url = getenv env ''LANGFUSE_HOST'' ''http://localhost:3000'' @ ''/trace/'' @ tid
              in (new_ChatResponse (res_text final_response) tid url (res_tokens final_response)
                    (res_model final_response), st5)))"

text \<open>
  FastAPI answers 200 with the returned model, and 500 when an exception leaves the
  handler.
\<close>

definition http_status :: "exn + ChatResponse \<Rightarrow> nat" where
  "http_status r = (case r of Inl _ \<Rightarrow> 500 | Inr _ \<Rightarrow> 200)"

subsection \<open>Requests one after another\<close>


subsection \<open>Loading and starting the script (lines 33 to 53 and 297 to 333)\<close>

text \<open>
  Standard output is the list of the strings given to \<open>print\<close>, in order; the characters
  outside ASCII are written as their UTF-8 bytes.
\<close>

definition nl :: string where "nl = [CHR 0x0A]"
definition sq :: string where "sq = [CHR 0x27]"
definition dq :: string where "dq = [CHR 0x22]"
definition backslash :: string where "backslash = [CHR 0x5C]"
definition check_mark :: string where "check_mark = [CHR 0xE2, CHR 0x9C, CHR 0x93]"
definition rocket :: string where "rocket = [CHR 0xF0, CHR 0x9F, CHR 0x9A, CHR 0x80]"
definition cross_mark :: string where "cross_mark = [CHR 0xE2, CHR 0x9D, CHR 0x8C]"
definition white_check :: string where "white_check = [CHR 0xE2, CHR 0x9C, CHR 0x85]"
definition bar_chart :: string where "bar_chart = [CHR 0xF0, CHR 0x9F, CHR 0x93, CHR 0x8A]"
definition globe :: string where "globe = [CHR 0xF0, CHR 0x9F, CHR 0x8C, CHR 0x90]"
definition memo :: string where "memo = [CHR 0xF0, CHR 0x9F, CHR 0x93, CHR 0x9D]"

datatype outcome = Exited nat | Uncaught | Serving string nat

text \<open>
  The status the process ends with: an uncaught exception ends Python with status 1;
  a process that serves has not ended.
\<close>

fun exit_status :: "outcome \<Rightarrow> nat option" where
  "exit_status (Exited n) = Some n"
| "exit_status Uncaught = Some 1"
| "exit_status (Serving host port) = None"

text \<open>
  The dict \<open>required_keys\<close> in the order of its literal, and \<open>not value\<close> for a value
  that is \<open>None\<close> or a string: true for \<open>None\<close> and for the empty string.
\<close>

definition required_keys :: "environ \<Rightarrow> (string \<times> string option) list" where
  "required_keys env =
     [(''OPENAI_API_KEY'', env ''OPENAI_API_KEY''),
      (''LANGFUSE_PUBLIC_KEY'', env ''LANGFUSE_PUBLIC_KEY''),
      (''LANGFUSE_SECRET_KEY'', env ''LANGFUSE_SECRET_KEY'')]"

definition required_names :: "string list" where
  "required_names = [''OPENAI_API_KEY'', ''LANGFUSE_PUBLIC_KEY'', ''LANGFUSE_SECRET_KEY'']"

fun not_value :: "string option \<Rightarrow> bool" where
  "not_value None = True"
| "not_value (Some v) = (v = [])"

definition missing :: "environ \<Rightarrow> string list" where
  "missing env = map fst (filter (\<lambda>(key, v). not_value v) (required_keys env))"

definition banner :: "string list" where
  "banner =
     [nl @ replicate 60 (CHR ''=''),
      rocket @ '' STARTING TRACED CHATBOT'',
      replicate 60 (CHR ''='')]"

definition missing_heading :: string where
  "missing_heading = nl @ cross_mark @ '' Missing required environment variables:''"

definition set_them_with :: "string list" where
  "set_them_with =
     [nl @ ''Set them with:'',
      ''  export OPENAI_API_KEY='' @ sq @ ''sk-your-key'' @ sq,
      ''  export LANGFUSE_PUBLIC_KEY='' @ sq @ ''pk-lf-your-key'' @ sq,
      ''  export LANGFUSE_SECRET_KEY='' @ sq @ ''sk-lf-your-key'' @ sq]"

definition ready_lines :: "environ \<Rightarrow> string list" where
  "ready_lines env =
     [nl @ white_check @ '' All environment variables set!'',
      nl @ bar_chart @ '' View traces at: '' @
        getenv env ''LANGFUSE_HOST'' ''http://localhost:3000'' @ ''/traces'',
      nl @ globe @ '' Starting server on http://localhost:8000'',
      nl @ memo @ '' Test with:'',
      ''   curl -X POST http://localhost:8000/chat '' @ backslash,
      ''     -H '' @ dq @ ''Content-Type: application/json'' @ dq @ '' '' @ backslash,
      ''     -d '' @ sq @ ''{'' @ dq @ ''message'' @ dq @ '':'' @ dq @ ''What is AI?'' @ dq @
        '','' @ dq @ ''user_id'' @ dq @ '':'' @ dq @ ''test'' @ dq @ ''}'' @ sq,
      nl @ replicate 60 (CHR ''='') @ nl]"

text \<open>
  The block prints the banner, then either the report of the missing variables, one line
  for each, and leaves with \<open>exit(1)\<close>, or the ready lines and calls \<open>uvicorn.run\<close>.
\<close>

definition main_block :: "environ \<Rightarrow> string list \<times> outcome" where
  "main_block env =
     (if missing env \<noteq> [] then
        (banner @ [missing_heading] @ map (\<lambda>key. ''   - '' @ key) (missing env) @ set_them_with,
         Exited 1)
      else (banner @ ready_lines env, Serving ''0.0.0.0'' 8000))"

text \<open>
  Before the start-up block runs, the module body has loaded \<open>.env\<close> into the environment
  (\<open>env\<close> is the environment after that) and constructed the two clients from it. The
  constructors are library code: whether one of them raises, for a missing key say, is not
  decided by the script, so it is a parameter. An exception there is not caught.
\<close>

datatype clients = Constructed | OpenAIRaised | LangfuseRaised

definition script :: "environ \<Rightarrow> clients \<Rightarrow> string list \<times> outcome" where
  "script env ctor =
     (let out1 = [check_mark @ '' Environment variables loaded from .env file'']
      in if ctor = OpenAIRaised then (out1, Uncaught)
         else
           (let out2 = out1 @ [check_mark @ '' Connected to OpenAI'']
            in if ctor = LangfuseRaised then (out2, Uncaught)
               else
                 (let out3 = out2 @ [check_mark @ '' Connected to Langfuse''];
                      (out, res) = main_block env
                  in (out3 @ out, res))))"

subsection \<open>Reading the client's record\<close>

text \<open>
  What a request added to the record, the spans it created (kind, owning trace, name),
  and the values that the calls on a trace, or the generations under it, give for a
  keyword, in the order of the calls.
\<close>

definition new_calls :: "app_state \<Rightarrow> app_state \<Rightarrow> lf_call list" where
  "new_calls st st' = drop (length (calls st)) (calls st')"

datatype span_kind = PlainSpan | GenerationSpan

fun span_created :: "lf_call \<Rightarrow> (span_kind \<times> string \<times> pyval option) option" where
  "span_created (GenerationCall t kw) = Some (GenerationSpan, t, lookup kw ''name'')"
| "span_created (SpanCall t kw) = Some (PlainSpan, t, lookup kw ''name'')"
| "span_created (TraceCall kw) = None"
| "span_created (SpanEndCall i kw) = None"
| "span_created (TraceUpdateCall t kw) = None"
| "span_created FlushCall = None"

definition spans_created :: "lf_call list \<Rightarrow> (span_kind \<times> string \<times> pyval option) list" where
  "spans_created cs = List.map_filter span_created cs"

fun trace_kw :: "string \<Rightarrow> string \<Rightarrow> lf_call \<Rightarrow> pyval option" where
  "trace_kw t k (TraceCall kw) = (if lookup kw ''id'' = Some (PStr t) then lookup kw k else None)"
| "trace_kw t k (TraceUpdateCall t' kw) = (if t' = t then lookup kw k else None)"
| "trace_kw t k (GenerationCall t' kw) = None"
| "trace_kw t k (SpanCall t' kw) = None"
| "trace_kw t k (SpanEndCall i kw) = None"
| "trace_kw t k FlushCall = None"

definition trace_field :: "string \<Rightarrow> string \<Rightarrow> lf_call list \<Rightarrow> pyval list" where
  "trace_field t k cs = List.map_filter (trace_kw t k) cs"

fun generation_kw :: "string \<Rightarrow> string \<Rightarrow> lf_call \<Rightarrow> pyval option" where
  "generation_kw t k (GenerationCall t' kw) = (if t' = t then lookup kw k else None)"
| "generation_kw t k (TraceCall kw) = None"
| "generation_kw t k (TraceUpdateCall t' kw) = None"
| "generation_kw t k (SpanCall t' kw) = None"
| "generation_kw t k (SpanEndCall i kw) = None"
| "generation_kw t k FlushCall = None"

definition generation_field :: "string \<Rightarrow> string \<Rightarrow> lf_call list \<Rightarrow> pyval list" where
  "generation_field t k cs = List.map_filter (generation_kw t k) cs"

subsection \<open>The example of the spec, section 8\<close>

definition example_request :: ChatRequest where
  "example_request = \<lparr>message = ''What is AI?'', user_id = ''demo''\<rparr>"

definition example_completion :: completion where
  "example_completion =
     \<lparr>choices = [Some ''AI is...''],
      usage = Some \<lparr>prompt_tokens = 20, completion_tokens = 15, total_tokens = 35\<rparr>,
      model = ''gpt-3.5-turbo-0125''\<rparr>"

definition example_world :: world where
  "example_world =
     \<lparr>uuid4 = ''7d3f'', now_isoformat = ''2024-05-01T10:00:00'',
      create = (\<lambda>rq. Inr example_completion), delivery_ok = True\<rparr>"

definition fresh_state :: app_state where
  "fresh_state = \<lparr>calls = [], delivered = [], sent = []\<rparr>"

definition example_response :: ChatResponse where
  "example_response =
     \<lparr>response = ''AI is...'', trace_id = ''7d3f'',
      trace_url = ''http://localhost:3000/trace/7d3f'',
      tokens_used = 35, model_used = ''gpt-3.5-turbo-0125''\<rparr>"

definition no_environ :: environ where
  "no_environ = (\<lambda>k. None)"


text \<open>The same request when the provider's call raises, and when its total is not the sum.\<close>

definition failing_world :: world where
  "failing_world = example_world\<lparr>create := (\<lambda>rq. Inl (APIError ''Connection error.''))\<rparr>"

definition mismatch_completion :: completion where
  "mismatch_completion =
     example_completion\<lparr>usage :=
        Some \<lparr>prompt_tokens = 20, completion_tokens = 15, total_tokens = 40\<rparr>\<rparr>"

definition mismatch_world :: world where
  "mismatch_world = example_world\<lparr>create := (\<lambda>rq. Inr mismatch_completion)\<rparr>"

text \<open>The five calls a request that gets its answer makes on the client before the flush.\<close>

definition chat_calls :: "world \<Rightarrow> ChatRequest \<Rightarrow> completion \<Rightarrow> completion_usage \<Rightarrow> llm_result \<Rightarrow> nat \<Rightarrow> lf_call list" where
  "chat_calls w request c u r n =
     [TraceCall (trace_kwargs w request),
      GenerationCall (uuid4 w) (generation_kwargs (message request) c u r),
      SpanCall (uuid4 w) (span_kwargs r),
      SpanEndCall (Suc (Suc n)) (span_end_kwargs r),
      TraceUpdateCall (uuid4 w) (update_kwargs r)]"

section \<open>Properties\<close>

subsection \<open>What one request does\<close>

lemma process_response_eq:
  "process_response r trace st =
     (r, st\<lparr>calls := calls st @ [SpanCall trace (span_kwargs r),
                                  SpanEndCall (length (calls st)) (span_end_kwargs r)]\<rparr>)"
  by (cases r) (simp add: process_response_def trace_span_def span_end_def Let_def)

lemma langfuse_trace_eq:
  "langfuse_trace (trace_kwargs w request) st =
     (uuid4 w, st\<lparr>calls := calls st @ [TraceCall (trace_kwargs w request)]\<rparr>)"
  by (simp add: langfuse_trace_def trace_kwargs_def lookup_def)

text \<open>The run of a request whose inference call returns a first choice with text and a usage.\<close>

lemma chat_ok:
  assumes "create w (inference_request (message request)) = Inr c"
    and "choices c = Some t # cs" and "usage c = Some u"
    and "r = \<lparr>res_text = Some t, res_tokens = total_tokens u, res_model = model c\<rparr>"
  shows "chat env w request st =
     (Inr \<lparr>response = t, trace_id = uuid4 w,
           trace_url = getenv env ''LANGFUSE_HOST'' ''http://localhost:3000'' @
                       ''/trace/'' @ uuid4 w,
           tokens_used = total_tokens u, model_used = model c\<rparr>,
      st\<lparr>calls := calls st @ chat_calls w request c u r (length (calls st)) @ [FlushCall],
         delivered := (if delivery_ok w
                       then calls st @ chat_calls w request c u r (length (calls st))
                       else delivered st),
         sent := sent st @ [inference_request (message request)]\<rparr>)"
  using assms
  by (simp add: chat_def langfuse_trace_eq call_openai_def trace_generation_def
      process_response_eq trace_update_def langfuse_flush_def new_ChatResponse_def
      chat_calls_def Let_def)

text \<open>A request only gets its answer on that run.\<close>

lemma chat_Inr:
  assumes "chat env w request st = (Inr resp, st')"
  shows "\<exists>c t cs u. create w (inference_request (message request)) = Inr c \<and>
           choices c = Some t # cs \<and> usage c = Some u"
  using assms
  by (auto simp: chat_def langfuse_trace_eq call_openai_def trace_generation_def
      process_response_eq trace_update_def langfuse_flush_def new_ChatResponse_def Let_def
      split: sum.splits list.splits option.splits)

text \<open>The example of the spec takes that run.\<close>

lemma example_create:
  "create example_world (inference_request (message example_request)) = Inr example_completion"
  "choices example_completion = [Some ''AI is...'']"
  "usage example_completion =
     Some \<lparr>prompt_tokens = 20, completion_tokens = 15, total_tokens = 35\<rparr>"
  by (simp_all add: example_world_def example_completion_def)

lemma example_sel:
  "uuid4 example_world = ''7d3f''" "delivery_ok example_world"
  "now_isoformat example_world = ''2024-05-01T10:00:00''"
  "model example_completion = ''gpt-3.5-turbo-0125''"
  "message example_request = ''What is AI?''" "user_id example_request = ''demo''"
  "calls fresh_state = []" "delivered fresh_state = []" "sent fresh_state = []"
  by (simp_all add: example_world_def example_completion_def example_request_def
      fresh_state_def)

lemma example_fst:
  "fst (chat no_environ example_world example_request fresh_state) = Inr example_response"
  by (simp add: chat_ok [OF example_create refl] example_sel example_response_def
      getenv_def no_environ_def)

lemma example_run:
  "chat no_environ example_world example_request fresh_state =
     (Inr example_response, snd (chat no_environ example_world example_request fresh_state))"
  using example_fst by (metis prod.collapse)

lemma chat_raises:
  assumes "create w (inference_request (message request)) = Inl e"
  shows "chat env w request st =
     (Inl e, st\<lparr>calls := calls st @ [TraceCall (trace_kwargs w request)],
               sent := sent st @ [inference_request (message request)]\<rparr>)"
  using assms
  by (simp add: chat_def langfuse_trace_eq call_openai_def Let_def)

lemma failing_sel:
  "uuid4 failing_world = ''7d3f''"
  "now_isoformat failing_world = ''2024-05-01T10:00:00''"
  "create failing_world rq = Inl (APIError ''Connection error.'')"
  by (simp_all add: failing_world_def example_world_def)

lemma mismatch_sel:
  "uuid4 mismatch_world = ''7d3f''" "delivery_ok mismatch_world"
  "now_isoformat mismatch_world = ''2024-05-01T10:00:00''"
  "create mismatch_world rq = Inr mismatch_completion"
  "choices mismatch_completion = [Some ''AI is...'']"
  "usage mismatch_completion =
     Some \<lparr>prompt_tokens = 20, completion_tokens = 15, total_tokens = 40\<rparr>"
  "model mismatch_completion = ''gpt-3.5-turbo-0125''"
  by (simp_all add: mismatch_world_def mismatch_completion_def example_world_def
      example_completion_def)

lemma mismatch_fst:
  "fst (chat no_environ mismatch_world example_request fresh_state) =
     Inr (example_response\<lparr>tokens_used := 40\<rparr>)"
  by (simp add: chat_ok [OF mismatch_sel(4,5,6) refl] mismatch_sel example_response_def
      getenv_def no_environ_def)

lemma mismatch_calls:
  "calls (snd (chat no_environ mismatch_world example_request fresh_state)) =
     chat_calls mismatch_world example_request mismatch_completion
       \<lparr>prompt_tokens = 20, completion_tokens = 15, total_tokens = 40\<rparr>
       \<lparr>res_text = Some ''AI is...'', res_tokens = 40, res_model = ''gpt-3.5-turbo-0125''\<rparr> 0
     @ [FlushCall]"
  by (simp add: chat_ok [OF mismatch_sel(4,5,6) refl] mismatch_sel example_sel)

lemma example_calls:
  "calls (snd (chat no_environ example_world example_request fresh_state)) =
     chat_calls example_world example_request example_completion
       \<lparr>prompt_tokens = 20, completion_tokens = 15, total_tokens = 35\<rparr>
       \<lparr>res_text = Some ''AI is...'', res_tokens = 35, res_model = ''gpt-3.5-turbo-0125''\<rparr> 0
     @ [FlushCall]"
  by (simp add: chat_ok [OF example_create refl] example_sel)

lemma generation_field_chat_calls:
  "generation_field (uuid4 w) k (chat_calls w request c u r n @ [FlushCall]) =
     (case lookup (generation_kwargs (message request) c u r) k of None \<Rightarrow> [] | Some v \<Rightarrow> [v])"
  by (simp add: generation_field_def chat_calls_def split: option.split)

lemma trace_field_chat_calls:
  "k \<noteq> ''id'' \<Longrightarrow> trace_field (uuid4 w) k (chat_calls w request c u r n @ [FlushCall]) =
     (case lookup (trace_kwargs w request) k of None \<Rightarrow> [] | Some v \<Rightarrow> [v]) @
     (case lookup (update_kwargs r) k of None \<Rightarrow> [] | Some v \<Rightarrow> [v])"
  by (simp add: trace_field_def chat_calls_def trace_kwargs_def lookup_def
      split: option.split)

lemma trace_field_chat_calls':
  "k \<noteq> ''id'' \<Longrightarrow> trace_field (uuid4 w) k (chat_calls w request c u r n) =
     (case lookup (trace_kwargs w request) k of None \<Rightarrow> [] | Some v \<Rightarrow> [v]) @
     (case lookup (update_kwargs r) k of None \<Rightarrow> [] | Some v \<Rightarrow> [v])"
  by (simp add: trace_field_def chat_calls_def trace_kwargs_def lookup_def
      split: option.split)





subsection \<open>Loading and starting\<close>

lemma required_keys_names: "required_keys env = map (\<lambda>k. (k, env k)) required_names"
  by (simp add: required_keys_def required_names_def)

lemma set_missing: "set (missing env) = {k \<in> set required_names. not_value (env k)}"
  by (force simp: missing_def required_keys_names)

lemma main_block_missing:
  assumes "missing env \<noteq> []"
  shows "snd (main_block env) = Exited 1"
    and "set (map (\<lambda>key. ''   - '' @ key) (missing env)) \<subseteq> set (fst (main_block env))"
proof -
  from assms have m: "main_block env =
      (banner @ [missing_heading] @ map (\<lambda>key. ''   - '' @ key) (missing env) @ set_them_with,
       Exited 1)"
    by (simp add: main_block_def)
  show "snd (main_block env) = Exited 1"
    by (simp add: m)
  show "set (map (\<lambda>key. ''   - '' @ key) (missing env)) \<subseteq> set (fst (main_block env))"
    unfolding m fst_conv set_append by blast
qed

lemma script_Constructed:
  "script env Constructed =
     ([check_mark @ '' Environment variables loaded from .env file'',
       check_mark @ '' Connected to OpenAI'',
       check_mark @ '' Connected to Langfuse''] @ fst (main_block env),
      snd (main_block env))"
  by (simp add: script_def Let_def case_prod_beta)

text \<open>
  A constructor that raises ends the process before the start-up block: of the report of
  missing variables nothing is printed then.
\<close>

lemma script_OpenAIRaised:
  "script env OpenAIRaised =
     ([check_mark @ '' Environment variables loaded from .env file''], Uncaught)"
  by (simp add: script_def)

lemma script_raised:
  "ctor \<noteq> Constructed \<Longrightarrow> snd (script env ctor) = Uncaught"
  by (cases ctor) (simp_all add: script_def Let_def)

text \<open>
  What the start-up block does for an absent variable, and on which runs it is reached:
  the process never serves and ends with a non-zero status either way, but the report,
  one line for every absent variable, is printed only when both constructors returned.
\<close>

lemma script_missing_credentials:
  assumes "k \<in> set required_names" and "env k = None"
  shows "(\<exists>n. exit_status (snd (script env ctor)) = Some n \<and> n \<noteq> 0) \<and>
         (\<forall>host port. snd (script env ctor) \<noteq> Serving host port) \<and>
         (ctor = Constructed \<longrightarrow>
            snd (script env ctor) = Exited 1 \<and>
            (\<forall>k' \<in> set required_names.
               env k' = None \<longrightarrow> ''   - '' @ k' \<in> set (fst (script env ctor))))"
proof -
  from assms have "k \<in> set (missing env)"
    by (simp add: set_missing)
  then have m: "missing env \<noteq> []" by auto
  have s: "snd (script env ctor) = (if ctor = Constructed then Exited 1 else Uncaught)"
    using main_block_missing(1) [OF m] script_raised [of ctor env]
    by (simp add: script_Constructed)
  have p: "''   - '' @ k' \<in> set (fst (script env Constructed))"
    if "k' \<in> set required_names" and "env k' = None" for k'
  proof -
    from that have "k' \<in> set (missing env)"
      by (simp add: set_missing)
    then have "''   - '' @ k' \<in> set (map (\<lambda>key. ''   - '' @ key) (missing env))"
      by (simp only: set_map image_eqI)
    with main_block_missing(2) [OF m] have "''   - '' @ k' \<in> set (fst (main_block env))"
      by blast
    then show ?thesis
      unfolding script_Constructed fst_conv set_append by blast
  qed
  have a: "\<exists>n. exit_status (snd (script env ctor)) = Some n \<and> n \<noteq> 0"
    by (simp add: s)
  have b: "\<forall>host port. snd (script env ctor) \<noteq> Serving host port"
    by (simp add: s)
  have c: "ctor = Constructed \<Longrightarrow> snd (script env ctor) = Exited 1"
    using s by simp
  from a b c p show ?thesis by auto
qed

lemma missing_no_environ: "missing no_environ = required_names"
  by (simp add: missing_def required_keys_def required_names_def no_environ_def)

subsection \<open>The claims\<close>

text \<open>
  C10. Every \<open>/chat\<close> request sends the provider exactly one inference request: model
  \<open>gpt-3.5-turbo\<close>, temperature 0.7, max_tokens 500, and two messages, the fixed system
  prompt and then one user message whose content is the request's message string. This
  holds whether or not the request goes on to succeed.
\<close>

theorem chat_inference_request:
  "sent (snd (chat env w request st)) =
     sent st @
       [\<lparr>req_model = ''gpt-3.5-turbo'',
         req_messages =
           [\<lparr>role = ''system'',
             content = ''You are a helpful assistant that explains things simply.''\<rparr>,
            \<lparr>role = ''user'', content = message request\<rparr>],
         req_temperature = 0.7,
         req_max_tokens = 500\<rparr>]"
  by (simp add: chat_def call_openai_def langfuse_trace_def process_response_def
      trace_span_def span_end_def trace_update_def langfuse_flush_def trace_generation_def
      inference_request_def system_prompt_def Let_def
      split: sum.split list.split option.split prod.split)

text \<open>
  C3. A request that gets its answer reports as \<open>tokens_used\<close> the total the provider
  reported and as \<open>model\<close> the provider's model string, and the spans it created are
  exactly one generation and then one plain span, the post-processing span, both under the
  request's trace.
\<close>

theorem chat_success_tokens_model_spans:
  assumes "chat env w request st = (Inr resp, st')"
  shows "\<exists>c u. create w (inference_request (message request)) = Inr c \<and> usage c = Some u \<and>
           tokens_used resp = total_tokens u \<and> model_used resp = model c \<and>
           spans_created (new_calls st st') =
             [(GenerationSpan, trace_id resp, Some (PStr ''openai_api_call'')),
              (PlainSpan, trace_id resp, Some (PStr ''response_processing''))]"
proof -
  from chat_Inr [OF assms] obtain c t cs u where
    h: "create w (inference_request (message request)) = Inr c"
       "choices c = Some t # cs" "usage c = Some u"
    by blast
  from assms chat_ok [OF h refl, of env st] have
    "tokens_used resp = total_tokens u" "model_used resp = model c"
    "spans_created (new_calls st st') =
       [(GenerationSpan, trace_id resp, Some (PStr ''openai_api_call'')),
        (PlainSpan, trace_id resp, Some (PStr ''response_processing''))]"
    by (auto simp: new_calls_def spans_created_def chat_calls_def
        generation_kwargs_def span_kwargs_def lookup_def)
  with h show ?thesis by blast
qed

theorem chat_success_tokens_model_spans_witness:
  "fst (chat no_environ example_world example_request fresh_state) = Inr example_response \<and>
   tokens_used example_response = 35 \<and>
   model_used example_response = ''gpt-3.5-turbo-0125'' \<and>
   spans_created (new_calls fresh_state
      (snd (chat no_environ example_world example_request fresh_state))) =
     [(GenerationSpan, ''7d3f'', Some (PStr ''openai_api_call'')),
      (PlainSpan, ''7d3f'', Some (PStr ''response_processing''))]"
proof -
  from chat_success_tokens_model_spans [OF example_run]
  have "spans_created (new_calls fresh_state
      (snd (chat no_environ example_world example_request fresh_state))) =
     [(GenerationSpan, ''7d3f'', Some (PStr ''openai_api_call'')),
      (PlainSpan, ''7d3f'', Some (PStr ''response_processing''))]"
    by (auto simp: example_response_def)
  with example_fst show ?thesis
    by (simp add: example_response_def)
qed

text \<open>
  C6. The \<open>trace_url\<close> of a request that gets its answer is the value of
  \<open>LANGFUSE_HOST\<close> (\<open>http://localhost:3000\<close> when the variable is unset), then
  \<open>/trace/\<close>, then the response's \<open>trace_id\<close>.
\<close>

theorem chat_trace_url:
  assumes "chat env w request st = (Inr resp, st')"
  shows "trace_url resp =
           (case env ''LANGFUSE_HOST'' of None \<Rightarrow> ''http://localhost:3000'' | Some host \<Rightarrow> host)
           @ ''/trace/'' @ trace_id resp"
proof -
  from chat_Inr [OF assms] obtain c t cs u where
    h: "create w (inference_request (message request)) = Inr c"
       "choices c = Some t # cs" "usage c = Some u"
    by blast
  from assms chat_ok [OF h refl, of env st] show ?thesis
    by (auto simp: getenv_def)
qed

theorem chat_trace_url_witness:
  "fst (chat no_environ example_world example_request fresh_state) = Inr example_response \<and>
   trace_url example_response = ''http://localhost:3000/trace/'' @ trace_id example_response"
proof -
  from chat_trace_url [OF example_run]
  have "trace_url example_response = ''http://localhost:3000/trace/'' @ trace_id example_response"
    by (simp add: no_environ_def)
  with example_fst show ?thesis by blast
qed

text \<open>
  C7. Post-processing begins a plain span on the trace and ends that same span with an
  output, and hands back its input unchanged: text, tokens and model are those it was
  given, and they are also the span's input and output.
\<close>

theorem process_response_passthrough:
  "fst (process_response r trace st) = r \<and>
   calls (snd (process_response r trace st)) =
     calls st @
       [SpanCall trace
          [(''name'', PStr ''response_processing''),
           (''input'', result_dict r),
           (''metadata'', PDict [(''step'', PStr ''validation'')])],
        SpanEndCall (length (calls st))
          [(''output'', result_dict r),
           (''metadata'', PDict [(''status'', PStr ''passed'')])]]"
  by (simp add: process_response_eq span_kwargs_def span_end_kwargs_def)

text \<open>
  C9. Whether the delivery behind the flush goes through or fails changes neither what
  the handler returns (so neither the HTTP outcome) nor the calls it makes: the handler
  never reads the outcome of the flush.
\<close>

theorem chat_response_ignores_delivery:
  "fst (chat env (w\<lparr>delivery_ok := ok\<rparr>) request st) = fst (chat env w request st) \<and>
   calls (snd (chat env (w\<lparr>delivery_ok := ok\<rparr>) request st)) = calls (snd (chat env w request st))"
  by (simp add: chat_def langfuse_trace_def lookup_def trace_kwargs_def call_openai_def
      trace_generation_def process_response_eq trace_update_def langfuse_flush_def Let_def
      split: sum.split list.split option.split prod.split)

text \<open>
  C1, as the spec states it, fails on the code. When the provider's call raises, the
  handler has recorded the creation of the trace and nothing else: there is no generation
  span that could be ended with an error status, the trace is given no status and no
  output, and the handler does not reach the flush.
\<close>

theorem inference_failure_counterexample:
  "fst (chat no_environ failing_world example_request fresh_state) =
     Inl (APIError ''Connection error.'') \<and>
   calls (snd (chat no_environ failing_world example_request fresh_state)) =
     [TraceCall
        [(''id'', PStr ''7d3f''),
         (''name'', PStr ''chat_conversation''),
         (''user_id'', PStr ''demo''),
         (''input'', PDict [(''message'', PStr ''What is AI?'')]),
         (''metadata'', PDict [(''timestamp'', PStr ''2024-05-01T10:00:00''),
                               (''message_length'', PInt 11)]),
         (''tags'', PList [PStr ''chatbot'', PStr ''gpt-3.5''])]] \<and>
   spans_created (calls (snd (chat no_environ failing_world example_request fresh_state))) = [] \<and>
   trace_field ''7d3f'' ''status''
     (calls (snd (chat no_environ failing_world example_request fresh_state))) = [] \<and>
   trace_field ''7d3f'' ''output''
     (calls (snd (chat no_environ failing_world example_request fresh_state))) = []"
  by (simp add: chat_raises [OF failing_sel(3)] failing_sel example_sel trace_kwargs_def
      spans_created_def trace_field_def lookup_def)

text \<open>
  C1, amended. When the inference call of a \<open>/chat\<close> request raises, the exception leaves
  the handler and the HTTP response reports failure. The handler has by then handed the
  telemetry client the creation of the trace, with the request's input and metadata, and
  makes no further call on it: no generation span and no post-processing span is created,
  the trace is not updated, and flush is not called.
\<close>

theorem chat_inference_failure:
  assumes "create w (inference_request (message request)) = Inl e"
  shows "fst (chat env w request st) = Inl e \<and>
         http_status (fst (chat env w request st)) = 500 \<and>
         new_calls st (snd (chat env w request st)) = [TraceCall (trace_kwargs w request)] \<and>
         lookup (trace_kwargs w request) ''input'' =
           Some (PDict [(''message'', PStr (message request))]) \<and>
         lookup (trace_kwargs w request) ''metadata'' =
           Some (PDict [(''timestamp'', PStr (now_isoformat w)),
                        (''message_length'', PInt (int (length (message request))))]) \<and>
         spans_created (new_calls st (snd (chat env w request st))) = []"
  by (simp add: chat_raises [OF assms] http_status_def new_calls_def spans_created_def
      trace_kwargs_def lookup_def)

theorem chat_inference_failure_witness:
  "create failing_world (inference_request (message example_request)) =
     Inl (APIError ''Connection error.'') \<and>
   fst (chat no_environ failing_world example_request fresh_state) =
     Inl (APIError ''Connection error.'') \<and>
   http_status (fst (chat no_environ failing_world example_request fresh_state)) = 500 \<and>
   spans_created (new_calls fresh_state
     (snd (chat no_environ failing_world example_request fresh_state))) = []"
  using chat_inference_failure [where w = failing_world and request = example_request
      and env = no_environ and st = fresh_state, OF failing_sel(3)]
    failing_sel(3) [of "inference_request (message example_request)"]
  by blast

text \<open>
  C2, as the spec states it, fails on the code. The provider reports a total of 40 for 20
  prompt and 15 completion tokens; the request gets its answer with \<open>tokens_used = 40\<close>,
  the generation carries the three numbers as reported, and its metadata holds the two
  request settings and nothing else, the same as for a total of 35: no warning is recorded.
\<close>

theorem usage_mismatch_counterexample:
  "fst (chat no_environ mismatch_world example_request fresh_state) =
     Inr (example_response\<lparr>tokens_used := 40\<rparr>) \<and>
   generation_field ''7d3f'' ''usage''
     (calls (snd (chat no_environ mismatch_world example_request fresh_state))) =
     [PDict [(''promptTokens'', PInt 20), (''completionTokens'', PInt 15),
             (''totalTokens'', PInt 40)]] \<and>
   generation_field ''7d3f'' ''metadata''
     (calls (snd (chat no_environ mismatch_world example_request fresh_state))) =
     [PDict [(''temperature'', PFloat 0.7), (''max_tokens'', PInt 500)]] \<and>
   generation_field ''7d3f'' ''metadata''
     (calls (snd (chat no_environ mismatch_world example_request fresh_state))) =
   generation_field ''7d3f'' ''metadata''
     (calls (snd (chat no_environ example_world example_request fresh_state)))"
  using generation_field_chat_calls [of mismatch_world]
    generation_field_chat_calls [of example_world]
  by (simp add: mismatch_fst mismatch_calls example_calls mismatch_sel example_sel
      generation_kwargs_def lookup_def)

text \<open>
  C2, amended. The generation recorded for a \<open>/chat\<close> request carries the prompt,
  completion and total token counts as the provider reported them, never recomputed or
  overridden, and \<open>tokens_used\<close> is the reported total. The code does not compare the
  total with the sum: the generation's metadata is always the temperature and max_tokens
  settings, and a request whose inference call returns a text and a usage gets its answer
  whether or not the total is the sum.
\<close>

theorem generation_usage_as_reported:
  assumes "create w (inference_request (message request)) = Inr c"
    and "choices c = Some t # cs" and "usage c = Some u"
  shows "fst (chat env w request st) =
           Inr \<lparr>response = t, trace_id = uuid4 w,
                 trace_url = getenv env ''LANGFUSE_HOST'' ''http://localhost:3000'' @
                             ''/trace/'' @ uuid4 w,
                 tokens_used = total_tokens u, model_used = model c\<rparr> \<and>
         generation_field (uuid4 w) ''usage'' (new_calls st (snd (chat env w request st))) =
           [PDict [(''promptTokens'', PInt (prompt_tokens u)),
                   (''completionTokens'', PInt (completion_tokens u)),
                   (''totalTokens'', PInt (total_tokens u))]] \<and>
         generation_field (uuid4 w) ''metadata'' (new_calls st (snd (chat env w request st))) =
           [PDict [(''temperature'', PFloat 0.7), (''max_tokens'', PInt 500)]]"
  by (simp add: chat_ok [OF assms refl] new_calls_def generation_field_chat_calls
      generation_kwargs_def lookup_def)

theorem generation_usage_as_reported_witness:
  "create mismatch_world (inference_request (message example_request)) = Inr mismatch_completion \<and>
   choices mismatch_completion = [Some ''AI is...''] \<and>
   usage mismatch_completion =
     Some \<lparr>prompt_tokens = 20, completion_tokens = 15, total_tokens = 40\<rparr> \<and>
   (40::int) \<noteq> 20 + 15 \<and>
   generation_field ''7d3f'' ''usage''
     (new_calls fresh_state (snd (chat no_environ mismatch_world example_request fresh_state))) =
     [PDict [(''promptTokens'', PInt 20), (''completionTokens'', PInt 15),
             (''totalTokens'', PInt 40)]]"
  using generation_usage_as_reported [where w = mismatch_world and request = example_request
      and env = no_environ and st = fresh_state, OF mismatch_sel(4,5,6)]
  by (simp add: mismatch_sel)

text \<open>
  C5, as the spec states it, fails on the code. In the example of the spec the request
  gets its answer, and the calls on its trace give the trace an output but no status.
\<close>

theorem trace_status_counterexample:
  "fst (chat no_environ example_world example_request fresh_state) = Inr example_response \<and>
   trace_field ''7d3f'' ''status''
     (calls (snd (chat no_environ example_world example_request fresh_state))) = [] \<and>
   trace_field ''7d3f'' ''output''
     (calls (snd (chat no_environ example_world example_request fresh_state))) =
     [PDict [(''response'', PStr ''AI is...''), (''tokens'', PInt 35)]]"
  using trace_field_chat_calls [of "''status''" example_world]
    trace_field_chat_calls [of "''output''" example_world]
  by (simp add: example_fst example_calls example_sel trace_kwargs_def update_kwargs_def
      lookup_def pystr_opt_def)

text \<open>
  C5, amended. A \<open>/chat\<close> request that gets its answer has updated its trace with the
  post-processed output, whose text and token count are those of the response body; no
  status is recorded on the trace. The flush is the last call the handler makes on the
  client, after the update and before the response is built, and the response carries the
  trace's id and the URL made of \<open>LANGFUSE_HOST\<close>, \<open>/trace/\<close> and that id.
\<close>

theorem chat_success_updates_and_flushes:
  assumes "chat env w request st = (Inr resp, st')"
  shows "\<exists>cs. new_calls st st' = cs @ [FlushCall] \<and> FlushCall \<notin> set cs \<and>
           trace_field (trace_id resp) ''output'' cs =
             [PDict [(''response'', PStr (response resp)),
                     (''tokens'', PInt (tokens_used resp))]] \<and>
           trace_field (trace_id resp) ''status'' cs = [] \<and>
           trace_url resp = getenv env ''LANGFUSE_HOST'' ''http://localhost:3000'' @
                            ''/trace/'' @ trace_id resp"
proof -
  from chat_Inr [OF assms] obtain c t cs u where
    h: "create w (inference_request (message request)) = Inr c"
       "choices c = Some t # cs" "usage c = Some u"
    by blast
  define r where "r = \<lparr>res_text = Some t, res_tokens = total_tokens u, res_model = model c\<rparr>"
  let ?cs = "chat_calls w request c u r (length (calls st))"
  from assms chat_ok [OF h r_def, of env st] have
    resp: "resp = \<lparr>response = t, trace_id = uuid4 w,
             trace_url = getenv env ''LANGFUSE_HOST'' ''http://localhost:3000'' @
                         ''/trace/'' @ uuid4 w,
             tokens_used = total_tokens u, model_used = model c\<rparr>"
    and st': "calls st' = calls st @ ?cs @ [FlushCall]"
    by auto
  have "new_calls st st' = ?cs @ [FlushCall]"
    using st' by (simp add: new_calls_def)
  moreover have "FlushCall \<notin> set ?cs"
    by (simp add: chat_calls_def)
  moreover have "trace_field (trace_id resp) ''output'' ?cs =
      [PDict [(''response'', PStr (response resp)), (''tokens'', PInt (tokens_used resp))]]"
    by (simp add: resp trace_field_chat_calls' trace_kwargs_def update_kwargs_def lookup_def
        r_def pystr_opt_def)
  moreover have "trace_field (trace_id resp) ''status'' ?cs = []"
    by (simp add: resp trace_field_chat_calls' trace_kwargs_def update_kwargs_def lookup_def)
  moreover have "trace_url resp = getenv env ''LANGFUSE_HOST'' ''http://localhost:3000'' @
      ''/trace/'' @ trace_id resp"
    by (simp add: resp)
  ultimately show ?thesis by blast
qed

theorem chat_success_updates_and_flushes_witness:
  "fst (chat no_environ example_world example_request fresh_state) = Inr example_response \<and>
   (\<exists>cs. new_calls fresh_state
            (snd (chat no_environ example_world example_request fresh_state)) =
            cs @ [FlushCall] \<and>
         trace_field ''7d3f'' ''output'' cs =
           [PDict [(''response'', PStr ''AI is...''), (''tokens'', PInt 35)]])"
proof -
  from chat_success_updates_and_flushes [OF example_run]
  have "\<exists>cs. new_calls fresh_state
            (snd (chat no_environ example_world example_request fresh_state)) =
            cs @ [FlushCall] \<and>
         trace_field ''7d3f'' ''output'' cs =
           [PDict [(''response'', PStr ''AI is...''), (''tokens'', PInt 35)]]"
    by (auto simp: example_response_def)
  with example_fst show ?thesis by blast
qed

text \<open>
  C4 holds of the start-up block but not of the process. The two clients are constructed
  when the module is loaded (lines 44 to 52), before the block that checks the variables
  (lines 304 to 321). With none of the three variables set and an OpenAI constructor that
  raises for the absent key, the process ends on the uncaught exception after its first
  line of output: the status is non-zero and no listener is bound, but none of the three
  names is printed. On the run where both constructors return, the same environment gets
  the report of all three names and status 1, which is what the claim says.
\<close>

theorem startup_check_not_reached:
  "missing no_environ = [''OPENAI_API_KEY'', ''LANGFUSE_PUBLIC_KEY'', ''LANGFUSE_SECRET_KEY''] \<and>
   script no_environ OpenAIRaised =
     ([check_mark @ '' Environment variables loaded from .env file''], Uncaught) \<and>
   exit_status (snd (script no_environ OpenAIRaised)) = Some 1 \<and>
   ''   - OPENAI_API_KEY'' \<notin> set (fst (script no_environ OpenAIRaised)) \<and>
   ''   - LANGFUSE_PUBLIC_KEY'' \<notin> set (fst (script no_environ OpenAIRaised)) \<and>
   ''   - LANGFUSE_SECRET_KEY'' \<notin> set (fst (script no_environ OpenAIRaised)) \<and>
   snd (script no_environ Constructed) = Exited 1 \<and>
   ''   - OPENAI_API_KEY'' \<in> set (fst (script no_environ Constructed)) \<and>
   ''   - LANGFUSE_PUBLIC_KEY'' \<in> set (fst (script no_environ Constructed)) \<and>
   ''   - LANGFUSE_SECRET_KEY'' \<in> set (fst (script no_environ Constructed))"
proof -
  have m: "missing no_environ =
      [''OPENAI_API_KEY'', ''LANGFUSE_PUBLIC_KEY'', ''LANGFUSE_SECRET_KEY'']"
    by (simp add: missing_no_environ required_names_def)
  have r: "script no_environ OpenAIRaised =
      ([check_mark @ '' Environment variables loaded from .env file''], Uncaught)"
    by (rule script_OpenAIRaised)
  have n: "''   - OPENAI_API_KEY'' \<notin> set (fst (script no_environ OpenAIRaised))"
    "''   - LANGFUSE_PUBLIC_KEY'' \<notin> set (fst (script no_environ OpenAIRaised))"
    "''   - LANGFUSE_SECRET_KEY'' \<notin> set (fst (script no_environ OpenAIRaised))"
    by (simp_all add: r check_mark_def)
  have e: "exit_status (snd (script no_environ OpenAIRaised)) = Some 1"
    by (simp add: r)
  have ne: "missing no_environ \<noteq> []"
    by (simp add: m)
  have c: "snd (script no_environ Constructed) = Exited 1"
    by (simp add: script_Constructed main_block_missing(1) [OF ne])
  have "set (map (\<lambda>key. ''   - '' @ key) (missing no_environ)) \<subseteq>
      set (fst (script no_environ Constructed))"
    using main_block_missing(2) [OF ne]
    unfolding script_Constructed fst_conv set_append by blast
  then have p: "''   - OPENAI_API_KEY'' \<in> set (fst (script no_environ Constructed))"
    "''   - LANGFUSE_PUBLIC_KEY'' \<in> set (fst (script no_environ Constructed))"
    "''   - LANGFUSE_SECRET_KEY'' \<in> set (fst (script no_environ Constructed))"
    by (simp_all add: m)
  from m r e n c p show ?thesis by blast
qed




end
